theory Spec2Isabelle
  imports Main "HOL-Library.Word"
begin

unbundle bit_operations_syntax

section \<open>R140 amplifier controller: band decode and PTT interlock\<close>

text \<open>
  A shallow embedding of \<^verbatim>\<open>sergej-arduino/R140_control.ino\<close> (the current firmware) and of
  the band switch of \<^verbatim>\<open>sergej-arduino/sergej_basic.ino\<close> (the earlier sketch).

  The firmware's globals are the fields of the record \<open>state\<close>; every function that
  mutates them takes the state and returns the new one. What the firmware reads from the
  outside during one pass of \<^verbatim>\<open>loop()\<close> (pin levels, each reading of \<^verbatim>\<open>millis()\<close>, the
  MQTT client's connection) is a field of the record \<open>env\<close>. What it writes to the outside
  is recorded in the state: the output pin levels (\<open>gpio\<close>), the lines that
  \<^verbatim>\<open>publishDebugMessage\<close> prints on the serial port (\<open>serial\<close>) and publishes on the debug
  topic (\<open>mqtt_debug\<close>), and the status documents that \<^verbatim>\<open>publishAmpStatus\<close> publishes
  (\<open>mqtt_status\<close>).
\<close>

subsection \<open>Types and constants\<close>

datatype level = LOW | HIGH

text \<open>\<^verbatim>\<open>uint8_t\<close>, and \<^verbatim>\<open>unsigned long\<close> (32 bits on the ESP8266 and on the AVR).\<close>

type_synonym u8 = "8 word"
type_synonym u32 = "32 word"

definition Mask :: u8 where
  "Mask = 15"

definition pttInp :: nat where
  "pttInp = 7"

definition pttOut :: nat where
  "pttOut = 6"

text \<open>\<^verbatim>\<open>A0\<close> comes from the board's core, which numbers the analog pin 17 on the ESP8266.\<close>

definition A0 :: nat where
  "A0 = 17"

definition uglasevanje :: nat where
  "uglasevanje = A0"

definition bandInPins :: "nat list" where
  "bandInPins = [2, 3, 4, 5]"

definition bandOutPins :: "nat list" where
  "bandOutPins = [8, 9, 10, 11]"

text \<open>
  The debug lines, one constructor per format string, with the values the format prints:
  \<^item> \<open>BandCodePattern b p\<close>: \<^verbatim>\<open>[BAND] code=%u -> pattern=0b%04b\<close>
  \<^item> \<open>BandChangeDetected prev new\<close>: \<^verbatim>\<open>[BAND] change detected: %u -> %u\<close>
  \<^item> \<open>BandBlocking secs\<close>: \<^verbatim>\<open>[BAND] Blocking PTT for %d s\<close>
  \<^item> \<open>PttTxOn\<close>: \<^verbatim>\<open>[PTT] IN active and allowed -> TX ON\<close>
  \<^item> \<open>PttBlocked secs\<close>: \<^verbatim>\<open>[PTT] IN active BUT BLOCKED (%d s after band change)\<close>
  \<^item> \<open>PttTxOff\<close>: \<^verbatim>\<open>[PTT] IN released -> TX OFF\<close>
  \<^item> \<open>UglLow\<close>: \<^verbatim>\<open>[INFO] Uglasevanje input LOW (active)\<close>
  \<^item> \<open>WifiDisconnected\<close>: \<^verbatim>\<open>WiFi disconnected.\<close>
  \<^item> \<open>MqttConnected\<close>: \<^verbatim>\<open>MQTT connected.\<close>
  \<^item> \<open>Handler text\<close>: a line of the web and MQTT handlers (\<^verbatim>\<open>[HTTP] root\<close>,
    \<^verbatim>\<open>[HTTP] OTA upload page\<close>, \<^verbatim>\<open>[MQTT] message on ...\<close>).
\<close>

datatype debug_msg =
    BandCodePattern u8 u8
  | BandChangeDetected u8 u8
  | BandBlocking int
  | PttTxOn
  | PttBlocked int
  | PttTxOff
  | UglLow
  | WifiDisconnected
  | MqttConnected
  | Handler string

text \<open>The JSON document of \<^verbatim>\<open>publishAmpStatus\<close>: \<^verbatim>\<open>ptt\<close>, \<^verbatim>\<open>band\<close>, \<^verbatim>\<open>block\<close>, \<^verbatim>\<open>block_ms_left\<close>.\<close>

record snapshot =
  snap_ptt :: string
  snap_band :: u8
  snap_block :: bool
  snap_block_ms_left :: u32

record state =
  band :: u8
  bandOld :: u8
  lastBandChangeTime :: u32
  bandBlockTimeMs :: u32
  block_ptt_seconds :: int
  pttState :: bool
  pttBlockReported :: bool
  debugEnabled :: bool
  debugDeadline :: u32
  lastMQTTCheck :: u32
  topic_status_set :: bool
  topic_debug_set :: bool
  gpio :: "nat \<Rightarrow> level"
  serial :: "debug_msg list"
  mqtt_debug :: "debug_msg list"
  mqtt_status :: "snapshot list"

text \<open>
  One pass of \<^verbatim>\<open>loop()\<close> reads:
  \<^item> \<open>pins p\<close>: \<^verbatim>\<open>digitalRead(p)\<close>;
  \<^item> \<open>now_ms\<close>: \<^verbatim>\<open>millis()\<close> at the head of \<^verbatim>\<open>handleAmplifierLogic\<close>;
  \<^item> \<open>change_ms\<close>: \<^verbatim>\<open>millis()\<close> in \<^verbatim>\<open>bandControl\<close>, when the band has changed;
  \<^item> \<open>band_status_ms\<close>, \<open>ptt_status_ms\<close>, \<open>mqtt_status_ms\<close>: the two readings of
    \<^verbatim>\<open>millis()\<close> inside \<^verbatim>\<open>publishAmpStatus\<close>, for its call from \<^verbatim>\<open>bandControl\<close>, from the
    end of \<^verbatim>\<open>handleAmplifierLogic\<close> and from \<^verbatim>\<open>reconnectMQTT\<close>;
  \<^item> \<open>deadline_ms\<close>: \<^verbatim>\<open>millis()\<close> in the debug timeout test of \<^verbatim>\<open>loop()\<close>;
  \<^item> \<open>check_ms\<close>: \<^verbatim>\<open>millis()\<close> read into \<^verbatim>\<open>now\<close> in \<^verbatim>\<open>loop()\<close>;
  \<^item> \<open>connected\<close>: \<^verbatim>\<open>client.connected()\<close>, one value for the whole pass (only
    \<^verbatim>\<open>client.connect\<close> in \<^verbatim>\<open>reconnectMQTT\<close> changes it, and the publishing that follows a
    successful connect is modelled as connected);
  \<^item> \<open>wifi_connected\<close>: \<^verbatim>\<open>WiFi.status() == WL_CONNECTED\<close>; \<open>wifi_ap\<close>:
    \<^verbatim>\<open>WiFi.getMode() == WIFI_AP\<close>; \<open>connect_ok\<close>: the result of \<^verbatim>\<open>client.connect\<close>;
  \<^item> \<open>handler_lines\<close>: the lines that the handlers run by \<^verbatim>\<open>server.handleClient()\<close> and
    \<^verbatim>\<open>client.loop()\<close> pass to \<^verbatim>\<open>publishDebugMessage\<close>.
  The web handlers touch the interlock's globals in one place only: \<^verbatim>\<open>handleSave\<close> sets the
  block time and restarts the board, which ends a run and starts the next one at
  \<^verbatim>\<open>setup()\<close>.
\<close>

record env =
  pins :: "nat \<Rightarrow> level"
  now_ms :: u32
  change_ms :: u32
  band_status_ms :: "u32 \<times> u32"
  ptt_status_ms :: "u32 \<times> u32"
  mqtt_status_ms :: "u32 \<times> u32"
  deadline_ms :: u32
  check_ms :: u32
  connected :: bool
  wifi_connected :: bool
  wifi_ap :: bool
  connect_ok :: bool
  handler_lines :: "string list"

subsection \<open>Debug and status output\<close>

definition publishDebugMessage :: "bool \<Rightarrow> debug_msg \<Rightarrow> state \<Rightarrow> state" where
  "publishDebugMessage conn msg s =
     (if \<not> debugEnabled s then s
      else
        let s1 = s\<lparr>serial := serial s @ [msg]\<rparr>
        in if conn \<and> topic_debug_set s1
           then s1\<lparr>mqtt_debug := mqtt_debug s1 @ [msg]\<rparr>
           else s1)"

text \<open>The block test, written three times in the firmware with the same operands.\<close>

definition blockActive :: "u32 \<Rightarrow> state \<Rightarrow> bool" where
  "blockActive now s = (now - lastBandChangeTime s \<le> bandBlockTimeMs s)"

definition publishAmpStatus :: "bool \<Rightarrow> u32 \<times> u32 \<Rightarrow> state \<Rightarrow> state" where
  "publishAmpStatus conn ms s =
     (if \<not> conn \<or> \<not> topic_status_set s then s
      else
        let active = blockActive (fst ms) s;
            doc = \<lparr>snap_ptt = (if pttState s then ''TX'' else ''RX''),
                   snap_band = band s,
                   snap_block = active,
                   snap_block_ms_left =
                     (if active then bandBlockTimeMs s - (snd ms - lastBandChangeTime s)
                      else 0)\<rparr>
        in s\<lparr>mqtt_status := mqtt_status s @ [doc]\<rparr>)"

subsection \<open>Band decode and band outputs\<close>

definition digitalWrite :: "nat \<Rightarrow> level \<Rightarrow> state \<Rightarrow> state" where
  "digitalWrite pin v s = s\<lparr>gpio := (gpio s)(pin := v)\<rparr>"

definition readBandCode :: "(nat \<Rightarrow> level) \<Rightarrow> u8" where
  "readBandCode rd =
     fold (\<lambda>i val. if rd (bandInPins ! i) = HIGH then val OR push_bit i 1 else val)
       [0..<4] 0 AND Mask"

text \<open>The \<^verbatim>\<open>switch\<close> of \<^verbatim>\<open>applyBandOutputs\<close>, case by case in the source's order.\<close>

definition pattern :: "u8 \<Rightarrow> u8" where
  "pattern b =
     (if b = 15 then 15
      else if b = 14 then 0
      else if b = 13 then 1
      else if b = 12 then 2
      else if b = 11 then 3
      else if b = 10 then 4
      else if b = 9 then 5
      else if b = 8 then 6
      else if b = 7 then 7
      else if b = 6 then 8
      else if b = 5 then 9
      else 15)"

definition applyBandOutputs :: "bool \<Rightarrow> u8 \<Rightarrow> state \<Rightarrow> state" where
  "applyBandOutputs conn b s =
     (let s1 = fold (\<lambda>i. digitalWrite (bandOutPins ! i)
                       (if pattern b AND push_bit i 1 \<noteq> 0 then HIGH else LOW))
                 [0..<4] s
      in publishDebugMessage conn (BandCodePattern b (pattern b)) s1)"

definition bandControl :: "env \<Rightarrow> state \<Rightarrow> state" where
  "bandControl e s =
     (let newBand = readBandCode (pins e)
      in if newBand = bandOld s then s\<lparr>band := newBand\<rparr>
         else
           let prev = bandOld s;
               s1 = s\<lparr>band := newBand, bandOld := newBand\<rparr>;
               s2 = publishDebugMessage (connected e) (BandChangeDetected prev newBand) s1;
               s3 = s2\<lparr>lastBandChangeTime := change_ms e\<rparr>;
               s4 = publishDebugMessage (connected e) (BandBlocking (block_ptt_seconds s3)) s3;
               s5 = applyBandOutputs (connected e) newBand s4
           in publishAmpStatus (connected e) (band_status_ms e) s5)"

subsection \<open>The interlock\<close>

definition handleAmplifierLogic :: "env \<Rightarrow> state \<Rightarrow> state" where
  "handleAmplifierLogic e s =
     (let in_ptt = pins e pttInp;
          in_ugl = pins e uglasevanje;
          now = now_ms e;
          pttAllowed = \<not> blockActive now s;
          pttPressed = (in_ptt = LOW);
          prevPtt = pttState s;
          s1 =
            (if pttPressed then
               (if pttAllowed then
                  let sa = (if \<not> pttState s
                            then publishDebugMessage (connected e) PttTxOn s else s);
                      sb = digitalWrite pttOut HIGH sa
                  in sb\<lparr>pttState := True, pttBlockReported := False\<rparr>
                else
                  let sa = (if \<not> pttBlockReported s
                            then (publishDebugMessage (connected e)
                                    (PttBlocked (block_ptt_seconds s)) s)
                                  \<lparr>pttBlockReported := True\<rparr>
                            else s);
                      sb = digitalWrite pttOut LOW sa
                  in sb\<lparr>pttState := False\<rparr>)
             else
               let sa = (if pttState s
                         then publishDebugMessage (connected e) PttTxOff s else s);
                   sb = digitalWrite pttOut LOW sa;
                   sc = sb\<lparr>pttState := False, pttBlockReported := False\<rparr>
               in bandControl e sc);
          s2 = (if pttState s1 \<noteq> prevPtt
                then publishAmpStatus (connected e) (ptt_status_ms e) s1 else s1)
      in if in_ugl = LOW then publishDebugMessage (connected e) UglLow s2 else s2)"

subsection \<open>Boot and the main loop\<close>

text \<open>
  What \<^verbatim>\<open>setup()\<close> reads: \<^verbatim>\<open>millis()\<close> when the debug deadline is set, the block time
  stored in the EEPROM, whether the station joined the network (only then
  \<^verbatim>\<open>setupWiFi\<close> writes the two topics), and the pins.
\<close>

record boot =
  boot_ms :: u32
  eeprom_block_ptt_seconds :: int
  boot_wifi :: bool
  boot_pins :: "nat \<Rightarrow> level"

text \<open>The globals as their initialisers leave them; the output latches start low.\<close>

definition globals :: state where
  "globals =
     \<lparr>band = 255, bandOld = 255, lastBandChangeTime = 0, bandBlockTimeMs = 15000,
      block_ptt_seconds = 15, pttState = False, pttBlockReported = False,
      debugEnabled = True, debugDeadline = 60000, lastMQTTCheck = 0,
      topic_status_set = False, topic_debug_set = False,
      gpio = (\<lambda>_. LOW), serial = [], mqtt_debug = [], mqtt_status = []\<rparr>"

definition loadConfigFromEEPROM :: "int \<Rightarrow> state \<Rightarrow> state" where
  "loadConfigFromEEPROM stored s =
     (let secs = (if stored \<le> 0 \<or> stored > 600 then 15 else stored)
      in s\<lparr>block_ptt_seconds := secs, bandBlockTimeMs := word_of_int secs * 1000\<rparr>)"

definition setupWiFi :: "bool \<Rightarrow> state \<Rightarrow> state" where
  "setupWiFi joined s =
     (if joined then s\<lparr>topic_status_set := True, topic_debug_set := True\<rparr> else s)"

definition setup_R140 :: "boot \<Rightarrow> state" where
  "setup_R140 b =
     (let s0 = globals;
          s1 = s0\<lparr>debugDeadline := debugDeadline s0 + boot_ms b\<rparr>;
          s2 = loadConfigFromEEPROM (eeprom_block_ptt_seconds b) s1;
          s3 = setupWiFi (boot_wifi b) s2;
          s4 = fold (\<lambda>i. digitalWrite (bandOutPins ! i) LOW) [0..<4] s3;
          code = readBandCode (boot_pins b);
          s5 = s4\<lparr>bandOld := code, band := code\<rparr>
      in applyBandOutputs False (band s5) s5)"

definition reconnectMQTT :: "env \<Rightarrow> state \<Rightarrow> state" where
  "reconnectMQTT e s =
     (if \<not> wifi_connected e then s
      else if connected e then s
      else if connect_ok e
      then publishAmpStatus True (mqtt_status_ms e) (publishDebugMessage True MqttConnected s)
      else s)"

definition loop :: "env \<Rightarrow> state \<Rightarrow> state" where
  "loop e s =
     (let s1 = handleAmplifierLogic e s;
          s2 = (if debugEnabled s1 \<and> debugDeadline s1 \<noteq> 0 \<and> deadline_ms e \<ge> debugDeadline s1
                then s1\<lparr>debugEnabled := False, debugDeadline := 0\<rparr> else s1);
          s3 = fold (\<lambda>l. publishDebugMessage (connected e) (Handler l)) (handler_lines e) s2;
          now = check_ms e;
          s4 = (if \<not> wifi_connected e \<and> \<not> wifi_ap e
                then publishDebugMessage (connected e) WifiDisconnected s3 else s3)
      in if \<not> connected e \<and> now - lastMQTTCheck s4 > 5000
         then reconnectMQTT e (s4\<lparr>lastMQTTCheck := now\<rparr>) else s4)"

fun run :: "env list \<Rightarrow> state \<Rightarrow> state" where
  "run [] s = s"
| "run (e # es) s = run es (loop e s)"

subsection \<open>The earlier sketch\<close>

text \<open>
  \<^verbatim>\<open>bandControl\<close> of \<^verbatim>\<open>sergej_basic.ino\<close>: the band code is the low nibble of \<^verbatim>\<open>PINC\<close> and
  the relays hang on bits 2 to 5 of \<^verbatim>\<open>PORTD\<close>. Its serial prints and its delay are left
  out.
\<close>

record basic_state =
  basic_band :: u8
  basic_bandOld :: u8
  PORTD :: u8

definition switch_basic :: "u8 \<Rightarrow> u8 \<Rightarrow> u8" where
  "switch_basic b pd =
     (if b = 15 then pd OR 0x3C
      else if b = 14 then pd AND 0xC3
      else if b = 13 then (pd AND 0xC3) OR 0x04
      else if b = 12 then (pd AND 0xC3) OR 0x08
      else if b = 11 then (pd AND 0xC3) OR 0x0C
      else if b = 10 then (pd AND 0xC3) OR 0x10
      else if b = 9 then (pd AND 0xC3) OR 0x14
      else if b = 8 then (pd AND 0xC3) OR 0x18
      else if b = 7 then (pd AND 0xC3) OR 0x1C
      else if b = 6 then (pd AND 0xC3) OR 0x20
      else if b = 5 then (pd AND 0xC3) OR 0x24
      else pd OR 0x3C)"

definition bandControl_basic :: "u8 \<Rightarrow> basic_state \<Rightarrow> basic_state" where
  "bandControl_basic pinc s =
     (let s1 = s\<lparr>basic_band := pinc AND Mask\<rparr>
      in if basic_band s1 = basic_bandOld s1 then s1
         else
           let s2 = s1\<lparr>basic_bandOld := basic_band s1\<rparr>
           in s2\<lparr>PORTD := switch_basic (basic_band s2) (PORTD s2)\<rparr>)"

subsection \<open>Observations of one tick\<close>

text \<open>
  The debug lines and the status documents that one call of \<^verbatim>\<open>handleAmplifierLogic\<close>
  adds to the serial port and to the status topic.
\<close>

definition tick_debug :: "env \<Rightarrow> state \<Rightarrow> debug_msg list" where
  "tick_debug e s = drop (length (serial s)) (serial (handleAmplifierLogic e s))"

definition tick_status :: "env \<Rightarrow> state \<Rightarrow> snapshot list" where
  "tick_status e s = drop (length (mqtt_status s)) (mqtt_status (handleAmplifierLogic e s))"

text \<open>
  The branch conditions of \<^verbatim>\<open>handleAmplifierLogic\<close> and \<^verbatim>\<open>bandControl\<close> under which a
  debug line is written: the band code read differs from \<open>bandOld\<close> with PTT released;
  PTT pressed, blocked and not yet reported; PTT pressed, allowed and the state still RX;
  PTT released with the state still TX.
\<close>

definition band_change_detected :: "env \<Rightarrow> state \<Rightarrow> bool" where
  "band_change_detected e s = (pins e pttInp \<noteq> LOW \<and> readBandCode (pins e) \<noteq> bandOld s)"

definition denial_onset :: "env \<Rightarrow> state \<Rightarrow> bool" where
  "denial_onset e s = (pins e pttInp = LOW \<and> blockActive (now_ms e) s \<and> \<not> pttBlockReported s)"

definition tx_asserted :: "env \<Rightarrow> state \<Rightarrow> bool" where
  "tx_asserted e s = (pins e pttInp = LOW \<and> \<not> blockActive (now_ms e) s \<and> \<not> pttState s)"

definition ptt_released :: "env \<Rightarrow> state \<Rightarrow> bool" where
  "ptt_released e s = (pins e pttInp \<noteq> LOW \<and> pttState s)"

definition is_denial :: "debug_msg \<Rightarrow> bool" where
  "is_denial m = (case m of PttBlocked _ \<Rightarrow> True | _ \<Rightarrow> False)"

subsection \<open>Concrete inputs\<close>

text \<open>
  \<open>wiring ptt ugl i0 i1 i2 i3\<close> is a reading of the input pins: the PTT input, the tuning
  input and the four band inputs; every other pin reads high. \<open>tick_at t rd conn\<close> is a
  pass of the loop in which every reading of the clock gives \<open>t\<close>, the pins read \<open>rd\<close>,
  the station is on the network and no handler runs. \<open>boot_ex\<close> boots with 15 seconds
  stored, the network joined and the band pins at (1,1,1,0).
\<close>

definition wiring ::
  "level \<Rightarrow> level \<Rightarrow> level \<Rightarrow> level \<Rightarrow> level \<Rightarrow> level \<Rightarrow> nat \<Rightarrow> level" where
  "wiring ptt ugl i0 i1 i2 i3 p =
     (if p = pttInp then ptt
      else if p = uglasevanje then ugl
      else if p = bandInPins ! 0 then i0
      else if p = bandInPins ! 1 then i1
      else if p = bandInPins ! 2 then i2
      else if p = bandInPins ! 3 then i3
      else HIGH)"

definition tick_at :: "u32 \<Rightarrow> (nat \<Rightarrow> level) \<Rightarrow> bool \<Rightarrow> env" where
  "tick_at t rd conn =
     \<lparr>pins = rd, now_ms = t, change_ms = t, band_status_ms = (t, t), ptt_status_ms = (t, t),
      mqtt_status_ms = (t, t), deadline_ms = t, check_ms = t, connected = conn,
      wifi_connected = True, wifi_ap = False, connect_ok = False, handler_lines = []\<rparr>"

definition boot_ex :: boot where
  "boot_ex = \<lparr>boot_ms = 0, eeprom_block_ptt_seconds = 15, boot_wifi = True,
              boot_pins = wiring HIGH HIGH HIGH HIGH HIGH LOW\<rparr>"

definition basic_ex :: basic_state where
  "basic_ex = \<lparr>basic_band = 15, basic_bandOld = 15, PORTD = 0x3F\<rparr>"

section \<open>Lemmas\<close>

subsection \<open>What each function changes\<close>

lemma upt4: "[0..<4] = [0, 1, 2, 3]"
  by code_simp

lemma pdm_fields [simp]:
  "band (publishDebugMessage c m s) = band s"
  "bandOld (publishDebugMessage c m s) = bandOld s"
  "lastBandChangeTime (publishDebugMessage c m s) = lastBandChangeTime s"
  "bandBlockTimeMs (publishDebugMessage c m s) = bandBlockTimeMs s"
  "block_ptt_seconds (publishDebugMessage c m s) = block_ptt_seconds s"
  "pttState (publishDebugMessage c m s) = pttState s"
  "pttBlockReported (publishDebugMessage c m s) = pttBlockReported s"
  "debugEnabled (publishDebugMessage c m s) = debugEnabled s"
  "debugDeadline (publishDebugMessage c m s) = debugDeadline s"
  "lastMQTTCheck (publishDebugMessage c m s) = lastMQTTCheck s"
  "topic_status_set (publishDebugMessage c m s) = topic_status_set s"
  "topic_debug_set (publishDebugMessage c m s) = topic_debug_set s"
  "gpio (publishDebugMessage c m s) = gpio s"
  "mqtt_status (publishDebugMessage c m s) = mqtt_status s"
  by (simp_all add: publishDebugMessage_def Let_def)

lemma pdm_serial [simp]:
  "serial (publishDebugMessage c m s) = serial s @ (if debugEnabled s then [m] else [])"
  by (simp add: publishDebugMessage_def Let_def)

lemma pdm_mqtt_debug [simp]:
  "mqtt_debug (publishDebugMessage c m s) =
     mqtt_debug s @ (if debugEnabled s \<and> c \<and> topic_debug_set s then [m] else [])"
  by (simp add: publishDebugMessage_def Let_def)

lemma pas_fields [simp]:
  "band (publishAmpStatus c ms s) = band s"
  "bandOld (publishAmpStatus c ms s) = bandOld s"
  "lastBandChangeTime (publishAmpStatus c ms s) = lastBandChangeTime s"
  "bandBlockTimeMs (publishAmpStatus c ms s) = bandBlockTimeMs s"
  "block_ptt_seconds (publishAmpStatus c ms s) = block_ptt_seconds s"
  "pttState (publishAmpStatus c ms s) = pttState s"
  "pttBlockReported (publishAmpStatus c ms s) = pttBlockReported s"
  "debugEnabled (publishAmpStatus c ms s) = debugEnabled s"
  "debugDeadline (publishAmpStatus c ms s) = debugDeadline s"
  "lastMQTTCheck (publishAmpStatus c ms s) = lastMQTTCheck s"
  "topic_status_set (publishAmpStatus c ms s) = topic_status_set s"
  "topic_debug_set (publishAmpStatus c ms s) = topic_debug_set s"
  "gpio (publishAmpStatus c ms s) = gpio s"
  "serial (publishAmpStatus c ms s) = serial s"
  "mqtt_debug (publishAmpStatus c ms s) = mqtt_debug s"
  by (simp_all add: publishAmpStatus_def Let_def)

lemma pas_status [simp]:
  "mqtt_status (publishAmpStatus c ms s) =
     mqtt_status s @
     (if c \<and> topic_status_set s
      then [\<lparr>snap_ptt = (if pttState s then ''TX'' else ''RX''),
             snap_band = band s,
             snap_block = blockActive (fst ms) s,
             snap_block_ms_left =
               (if blockActive (fst ms) s
                then bandBlockTimeMs s - (snd ms - lastBandChangeTime s) else 0)\<rparr>]
      else [])"
  by (simp add: publishAmpStatus_def Let_def)

lemma dw_fields [simp]:
  "band (digitalWrite p v s) = band s"
  "bandOld (digitalWrite p v s) = bandOld s"
  "lastBandChangeTime (digitalWrite p v s) = lastBandChangeTime s"
  "bandBlockTimeMs (digitalWrite p v s) = bandBlockTimeMs s"
  "block_ptt_seconds (digitalWrite p v s) = block_ptt_seconds s"
  "pttState (digitalWrite p v s) = pttState s"
  "pttBlockReported (digitalWrite p v s) = pttBlockReported s"
  "debugEnabled (digitalWrite p v s) = debugEnabled s"
  "debugDeadline (digitalWrite p v s) = debugDeadline s"
  "lastMQTTCheck (digitalWrite p v s) = lastMQTTCheck s"
  "topic_status_set (digitalWrite p v s) = topic_status_set s"
  "topic_debug_set (digitalWrite p v s) = topic_debug_set s"
  "serial (digitalWrite p v s) = serial s"
  "mqtt_debug (digitalWrite p v s) = mqtt_debug s"
  "mqtt_status (digitalWrite p v s) = mqtt_status s"
  "gpio (digitalWrite p v s) = (gpio s)(p := v)"
  by (simp_all add: digitalWrite_def)

lemma blockActive_upd [simp]:
  "blockActive t (publishDebugMessage c m s) = blockActive t s"
  "blockActive t (publishAmpStatus c ms s) = blockActive t s"
  "blockActive t (digitalWrite p v s) = blockActive t s"
  by (simp_all add: blockActive_def)

lemma abo_fields [simp]:
  "band (applyBandOutputs c b s) = band s"
  "bandOld (applyBandOutputs c b s) = bandOld s"
  "lastBandChangeTime (applyBandOutputs c b s) = lastBandChangeTime s"
  "bandBlockTimeMs (applyBandOutputs c b s) = bandBlockTimeMs s"
  "block_ptt_seconds (applyBandOutputs c b s) = block_ptt_seconds s"
  "pttState (applyBandOutputs c b s) = pttState s"
  "pttBlockReported (applyBandOutputs c b s) = pttBlockReported s"
  "debugEnabled (applyBandOutputs c b s) = debugEnabled s"
  "debugDeadline (applyBandOutputs c b s) = debugDeadline s"
  "lastMQTTCheck (applyBandOutputs c b s) = lastMQTTCheck s"
  "topic_status_set (applyBandOutputs c b s) = topic_status_set s"
  "topic_debug_set (applyBandOutputs c b s) = topic_debug_set s"
  "mqtt_status (applyBandOutputs c b s) = mqtt_status s"
  by (simp_all add: applyBandOutputs_def Let_def upt4)

lemma abo_serial [simp]:
  "serial (applyBandOutputs c b s) =
     serial s @ (if debugEnabled s then [BandCodePattern b (pattern b)] else [])"
  by (simp add: applyBandOutputs_def Let_def upt4)

lemma abo_mqtt_debug [simp]:
  "mqtt_debug (applyBandOutputs c b s) =
     mqtt_debug s @
     (if debugEnabled s \<and> c \<and> topic_debug_set s then [BandCodePattern b (pattern b)] else [])"
  by (simp add: applyBandOutputs_def Let_def upt4)

lemma abo_gpio:
  "gpio (applyBandOutputs c b s) =
     (gpio s)(8 := if pattern b AND 1 \<noteq> 0 then HIGH else LOW,
              9 := if pattern b AND 2 \<noteq> 0 then HIGH else LOW,
              10 := if pattern b AND 4 \<noteq> 0 then HIGH else LOW,
              11 := if pattern b AND 8 \<noteq> 0 then HIGH else LOW)"
  by (simp add: applyBandOutputs_def Let_def upt4 bandOutPins_def)

lemma bc_fields [simp]:
  "band (bandControl e s) = readBandCode (pins e)"
  "bandOld (bandControl e s) = readBandCode (pins e)"
  "lastBandChangeTime (bandControl e s) =
     (if readBandCode (pins e) = bandOld s then lastBandChangeTime s else change_ms e)"
  "bandBlockTimeMs (bandControl e s) = bandBlockTimeMs s"
  "block_ptt_seconds (bandControl e s) = block_ptt_seconds s"
  "pttState (bandControl e s) = pttState s"
  "pttBlockReported (bandControl e s) = pttBlockReported s"
  "debugEnabled (bandControl e s) = debugEnabled s"
  "debugDeadline (bandControl e s) = debugDeadline s"
  "lastMQTTCheck (bandControl e s) = lastMQTTCheck s"
  "topic_status_set (bandControl e s) = topic_status_set s"
  "topic_debug_set (bandControl e s) = topic_debug_set s"
  by (simp_all add: bandControl_def Let_def)

lemma bc_gpio:
  "gpio (bandControl e s) =
     (if readBandCode (pins e) = bandOld s then gpio s
      else gpio (applyBandOutputs (connected e) (readBandCode (pins e)) s))"
  by (simp add: bandControl_def Let_def abo_gpio)

lemma bc_serial [simp]:
  "serial (bandControl e s) =
     serial s @
     (if readBandCode (pins e) \<noteq> bandOld s \<and> debugEnabled s
      then [BandChangeDetected (bandOld s) (readBandCode (pins e)),
            BandBlocking (block_ptt_seconds s),
            BandCodePattern (readBandCode (pins e)) (pattern (readBandCode (pins e)))]
      else [])"
  by (simp add: bandControl_def Let_def)

lemma bc_mqtt_debug [simp]:
  "mqtt_debug (bandControl e s) =
     mqtt_debug s @
     (if readBandCode (pins e) \<noteq> bandOld s \<and> debugEnabled s \<and> connected e \<and> topic_debug_set s
      then [BandChangeDetected (bandOld s) (readBandCode (pins e)),
            BandBlocking (block_ptt_seconds s),
            BandCodePattern (readBandCode (pins e)) (pattern (readBandCode (pins e)))]
      else [])"
  by (simp add: bandControl_def Let_def)

lemma bc_status [simp]:
  "mqtt_status (bandControl e s) =
     mqtt_status s @
     (if readBandCode (pins e) \<noteq> bandOld s \<and> connected e \<and> topic_status_set s
      then [\<lparr>snap_ptt = (if pttState s then ''TX'' else ''RX''),
             snap_band = readBandCode (pins e),
             snap_block = (fst (band_status_ms e) - change_ms e \<le> bandBlockTimeMs s),
             snap_block_ms_left =
               (if fst (band_status_ms e) - change_ms e \<le> bandBlockTimeMs s
                then bandBlockTimeMs s - (snd (band_status_ms e) - change_ms e) else 0)\<rparr>]
      else [])"
  by (simp add: bandControl_def Let_def blockActive_def)

lemma hal_fields [simp]:
  "bandBlockTimeMs (handleAmplifierLogic e s) = bandBlockTimeMs s"
  "block_ptt_seconds (handleAmplifierLogic e s) = block_ptt_seconds s"
  "debugEnabled (handleAmplifierLogic e s) = debugEnabled s"
  "debugDeadline (handleAmplifierLogic e s) = debugDeadline s"
  "lastMQTTCheck (handleAmplifierLogic e s) = lastMQTTCheck s"
  "topic_status_set (handleAmplifierLogic e s) = topic_status_set s"
  "topic_debug_set (handleAmplifierLogic e s) = topic_debug_set s"
  by (simp_all add: handleAmplifierLogic_def Let_def)

lemma hal_pttState:
  "pttState (handleAmplifierLogic e s) = (pins e pttInp = LOW \<and> \<not> blockActive (now_ms e) s)"
  by (simp add: handleAmplifierLogic_def Let_def)

lemma hal_pttBlockReported:
  "pttBlockReported (handleAmplifierLogic e s) = (pins e pttInp = LOW \<and> blockActive (now_ms e) s)"
  by (simp add: handleAmplifierLogic_def Let_def)

lemma hal_pttOut:
  "gpio (handleAmplifierLogic e s) pttOut =
     (if pins e pttInp = LOW \<and> \<not> blockActive (now_ms e) s then HIGH else LOW)"
  by (simp add: handleAmplifierLogic_def Let_def bc_gpio abo_gpio pttOut_def)

lemma hal_band:
  "band (handleAmplifierLogic e s) = (if pins e pttInp = LOW then band s else readBandCode (pins e))"
  "bandOld (handleAmplifierLogic e s) =
     (if pins e pttInp = LOW then bandOld s else readBandCode (pins e))"
  "lastBandChangeTime (handleAmplifierLogic e s) =
     (if pins e pttInp \<noteq> LOW \<and> readBandCode (pins e) \<noteq> bandOld s
      then change_ms e else lastBandChangeTime s)"
  by (simp_all add: handleAmplifierLogic_def Let_def)

lemma hal_band_pins:
  "map (gpio (handleAmplifierLogic e s)) bandOutPins =
     (if pins e pttInp \<noteq> LOW \<and> readBandCode (pins e) \<noteq> bandOld s
      then map (gpio (applyBandOutputs (connected e) (readBandCode (pins e)) s)) bandOutPins
      else map (gpio s) bandOutPins)"
  by (simp add: handleAmplifierLogic_def Let_def bc_gpio abo_gpio pttOut_def bandOutPins_def)

lemma hal_serial:
  "serial (handleAmplifierLogic e s) = serial s @
     (if debugEnabled s then
        (if pins e pttInp = LOW then
           (if \<not> blockActive (now_ms e) s
            then (if \<not> pttState s then [PttTxOn] else [])
            else (if \<not> pttBlockReported s then [PttBlocked (block_ptt_seconds s)] else []))
         else
           (if pttState s then [PttTxOff] else []) @
           (if readBandCode (pins e) \<noteq> bandOld s
            then [BandChangeDetected (bandOld s) (readBandCode (pins e)),
                  BandBlocking (block_ptt_seconds s),
                  BandCodePattern (readBandCode (pins e)) (pattern (readBandCode (pins e)))]
            else [])) @
        (if pins e uglasevanje = LOW then [UglLow] else [])
      else [])"
  by (simp add: handleAmplifierLogic_def Let_def)

lemma hal_mqtt_debug:
  "mqtt_debug (handleAmplifierLogic e s) = mqtt_debug s @
     (if debugEnabled s \<and> connected e \<and> topic_debug_set s then
        (if pins e pttInp = LOW then
           (if \<not> blockActive (now_ms e) s
            then (if \<not> pttState s then [PttTxOn] else [])
            else (if \<not> pttBlockReported s then [PttBlocked (block_ptt_seconds s)] else []))
         else
           (if pttState s then [PttTxOff] else []) @
           (if readBandCode (pins e) \<noteq> bandOld s
            then [BandChangeDetected (bandOld s) (readBandCode (pins e)),
                  BandBlocking (block_ptt_seconds s),
                  BandCodePattern (readBandCode (pins e)) (pattern (readBandCode (pins e)))]
            else [])) @
        (if pins e uglasevanje = LOW then [UglLow] else [])
      else [])"
  by (simp add: handleAmplifierLogic_def Let_def)

lemma hal_status:
  "mqtt_status (handleAmplifierLogic e s) =
     mqtt_status s @
     (if band_change_detected e s \<and> connected e \<and> topic_status_set s
      then [\<lparr>snap_ptt = ''RX'',
             snap_band = readBandCode (pins e),
             snap_block = (fst (band_status_ms e) - change_ms e \<le> bandBlockTimeMs s),
             snap_block_ms_left =
               (if fst (band_status_ms e) - change_ms e \<le> bandBlockTimeMs s
                then bandBlockTimeMs s - (snd (band_status_ms e) - change_ms e) else 0)\<rparr>]
      else []) @
     (if pttState (handleAmplifierLogic e s) \<noteq> pttState s \<and> connected e \<and> topic_status_set s
      then [\<lparr>snap_ptt = (if pttState (handleAmplifierLogic e s) then ''TX'' else ''RX''),
             snap_band = band (handleAmplifierLogic e s),
             snap_block = blockActive (fst (ptt_status_ms e)) (handleAmplifierLogic e s),
             snap_block_ms_left =
               (if blockActive (fst (ptt_status_ms e)) (handleAmplifierLogic e s)
                then bandBlockTimeMs s -
                     (snd (ptt_status_ms e) - lastBandChangeTime (handleAmplifierLogic e s))
                else 0)\<rparr>]
      else [])"
  by (simp add: hal_pttState hal_band)
     (simp add: handleAmplifierLogic_def Let_def band_change_detected_def blockActive_def)

subsection \<open>The loop and its runs\<close>

lemma handlers_fields [simp]:
  "band (fold (\<lambda>l. publishDebugMessage c (Handler l)) ls s) = band s"
  "bandOld (fold (\<lambda>l. publishDebugMessage c (Handler l)) ls s) = bandOld s"
  "lastBandChangeTime (fold (\<lambda>l. publishDebugMessage c (Handler l)) ls s) = lastBandChangeTime s"
  "bandBlockTimeMs (fold (\<lambda>l. publishDebugMessage c (Handler l)) ls s) = bandBlockTimeMs s"
  "block_ptt_seconds (fold (\<lambda>l. publishDebugMessage c (Handler l)) ls s) = block_ptt_seconds s"
  "pttState (fold (\<lambda>l. publishDebugMessage c (Handler l)) ls s) = pttState s"
  "pttBlockReported (fold (\<lambda>l. publishDebugMessage c (Handler l)) ls s) = pttBlockReported s"
  "debugEnabled (fold (\<lambda>l. publishDebugMessage c (Handler l)) ls s) = debugEnabled s"
  "debugDeadline (fold (\<lambda>l. publishDebugMessage c (Handler l)) ls s) = debugDeadline s"
  "lastMQTTCheck (fold (\<lambda>l. publishDebugMessage c (Handler l)) ls s) = lastMQTTCheck s"
  "topic_status_set (fold (\<lambda>l. publishDebugMessage c (Handler l)) ls s) = topic_status_set s"
  "topic_debug_set (fold (\<lambda>l. publishDebugMessage c (Handler l)) ls s) = topic_debug_set s"
  "gpio (fold (\<lambda>l. publishDebugMessage c (Handler l)) ls s) = gpio s"
  "mqtt_status (fold (\<lambda>l. publishDebugMessage c (Handler l)) ls s) = mqtt_status s"
  by (induction ls arbitrary: s; simp)+

lemma handlers_serial [simp]:
  "serial (fold (\<lambda>l. publishDebugMessage c (Handler l)) ls s) =
     serial s @ (if debugEnabled s then map Handler ls else [])"
  by (induction ls arbitrary: s) simp_all

lemma handlers_mqtt_debug [simp]:
  "mqtt_debug (fold (\<lambda>l. publishDebugMessage c (Handler l)) ls s) =
     mqtt_debug s @ (if debugEnabled s \<and> c \<and> topic_debug_set s then map Handler ls else [])"
  by (induction ls arbitrary: s) simp_all

lemma reconnect_fields [simp]:
  "band (reconnectMQTT e s) = band s"
  "bandOld (reconnectMQTT e s) = bandOld s"
  "lastBandChangeTime (reconnectMQTT e s) = lastBandChangeTime s"
  "bandBlockTimeMs (reconnectMQTT e s) = bandBlockTimeMs s"
  "block_ptt_seconds (reconnectMQTT e s) = block_ptt_seconds s"
  "pttState (reconnectMQTT e s) = pttState s"
  "pttBlockReported (reconnectMQTT e s) = pttBlockReported s"
  "debugEnabled (reconnectMQTT e s) = debugEnabled s"
  "debugDeadline (reconnectMQTT e s) = debugDeadline s"
  "topic_status_set (reconnectMQTT e s) = topic_status_set s"
  "topic_debug_set (reconnectMQTT e s) = topic_debug_set s"
  "gpio (reconnectMQTT e s) = gpio s"
  by (simp_all add: reconnectMQTT_def)

lemma reconnect_disabled:
  "\<not> debugEnabled s \<Longrightarrow> serial (reconnectMQTT e s) = serial s"
  "\<not> debugEnabled s \<Longrightarrow> mqtt_debug (reconnectMQTT e s) = mqtt_debug s"
  by (simp_all add: reconnectMQTT_def)

lemma loop_fields:
  "band (loop e s) = band (handleAmplifierLogic e s)"
  "bandOld (loop e s) = bandOld (handleAmplifierLogic e s)"
  "lastBandChangeTime (loop e s) = lastBandChangeTime (handleAmplifierLogic e s)"
  "bandBlockTimeMs (loop e s) = bandBlockTimeMs s"
  "block_ptt_seconds (loop e s) = block_ptt_seconds s"
  "pttState (loop e s) = pttState (handleAmplifierLogic e s)"
  "pttBlockReported (loop e s) = pttBlockReported (handleAmplifierLogic e s)"
  "topic_status_set (loop e s) = topic_status_set s"
  "topic_debug_set (loop e s) = topic_debug_set s"
  "gpio (loop e s) = gpio (handleAmplifierLogic e s)"
  by (simp_all add: loop_def Let_def)

lemma loop_blockActive: "blockActive t (loop e s) = blockActive t (handleAmplifierLogic e s)"
  by (simp add: blockActive_def loop_fields)

lemma loop_debugEnabled:
  "debugEnabled (loop e s) =
     (debugEnabled s \<and> \<not> (debugDeadline s \<noteq> 0 \<and> debugDeadline s \<le> deadline_ms e))"
  by (auto simp: loop_def Let_def)

lemma loop_debugDeadline:
  "debugEnabled (loop e s) \<Longrightarrow> debugDeadline (loop e s) = debugDeadline s"
  by (auto simp: loop_def Let_def split: if_splits)

lemma loop_disabled:
  "\<not> debugEnabled s \<Longrightarrow> serial (loop e s) = serial s"
  "\<not> debugEnabled s \<Longrightarrow> mqtt_debug (loop e s) = mqtt_debug s"
  by (simp_all add: loop_def Let_def reconnect_disabled hal_serial hal_mqtt_debug)

lemma loop_fired:
  assumes "debugDeadline s \<noteq> 0 \<and> debugDeadline s \<le> deadline_ms e \<or> \<not> debugEnabled s"
  shows "serial (loop e s) = serial (handleAmplifierLogic e s)"
    and "mqtt_debug (loop e s) = mqtt_debug (handleAmplifierLogic e s)"
  using assms by (auto simp: loop_def Let_def reconnect_disabled)

lemma run_append: "run (xs @ ys) s = run ys (run xs s)"
  by (induction xs arbitrary: s) simp_all

lemma run_disabled:
  "\<not> debugEnabled s \<Longrightarrow>
   \<not> debugEnabled (run es s) \<and> serial (run es s) = serial s \<and> mqtt_debug (run es s) = mqtt_debug s"
proof (induction es arbitrary: s)
  case Nil
  then show ?case by simp
next
  case (Cons e es)
  from Cons.prems have "\<not> debugEnabled (loop e s)" by (simp add: loop_debugEnabled)
  from Cons.IH [OF this] Cons.prems show ?case by (simp add: loop_disabled)
qed

lemma run_enabled:
  "debugEnabled (run es s) \<Longrightarrow> debugEnabled s \<and> debugDeadline (run es s) = debugDeadline s"
proof (induction es arbitrary: s)
  case Nil
  then show ?case by simp
next
  case (Cons e es)
  from Cons.prems have a: "debugEnabled (run es (loop e s))" by simp
  from Cons.IH [OF a] have b: "debugEnabled (loop e s)"
    and c: "debugDeadline (run es (loop e s)) = debugDeadline (loop e s)" by simp_all
  from b have "debugEnabled s" by (simp add: loop_debugEnabled)
  with b c show ?case by (simp add: loop_debugDeadline)
qed

lemma setup_fields:
  "debugDeadline (setup_R140 b) = 60000 + boot_ms b"
  "debugEnabled (setup_R140 b)"
  "lastBandChangeTime (setup_R140 b) = 0"
  "\<not> pttState (setup_R140 b)"
  "\<not> pttBlockReported (setup_R140 b)"
  "band (setup_R140 b) = readBandCode (boot_pins b)"
  "bandOld (setup_R140 b) = readBandCode (boot_pins b)"
  "topic_status_set (setup_R140 b) = boot_wifi b"
  "topic_debug_set (setup_R140 b) = boot_wifi b"
  "block_ptt_seconds (setup_R140 b) =
     (if eeprom_block_ptt_seconds b \<le> 0 \<or> eeprom_block_ptt_seconds b > 600 then 15
      else eeprom_block_ptt_seconds b)"
  "bandBlockTimeMs (setup_R140 b) = word_of_int (block_ptt_seconds (setup_R140 b)) * 1000"
  "serial (setup_R140 b) =
     [BandCodePattern (readBandCode (boot_pins b)) (pattern (readBandCode (boot_pins b)))]"
  "mqtt_debug (setup_R140 b) = []"
  "mqtt_status (setup_R140 b) = []"
  by (simp_all add: setup_R140_def Let_def globals_def loadConfigFromEEPROM_def setupWiFi_def upt4)

lemma setup_band_pins:
  "map (gpio (setup_R140 b)) bandOutPins =
     map (gpio (applyBandOutputs False (readBandCode (boot_pins b)) globals)) bandOutPins"
  by (simp add: setup_R140_def Let_def globals_def loadConfigFromEEPROM_def setupWiFi_def upt4
      abo_gpio bandOutPins_def)

lemma setup_pttOut: "gpio (setup_R140 b) pttOut = LOW"
  by (simp add: setup_R140_def Let_def globals_def loadConfigFromEEPROM_def setupWiFi_def upt4
      abo_gpio bandOutPins_def pttOut_def)

subsection \<open>The block window on the clock\<close>

lemma elapsed_word:
  fixes T t :: nat
  assumes "T \<le> t" and "t < T + 2 ^ 32"
  shows "unat ((of_nat t :: u32) - of_nat T) = t - T"
proof -
  have "(of_nat t :: u32) - of_nat T = of_nat (t - T)"
    using assms(1) by simp
  moreover have "t - T < 2 ^ 32" using assms by simp
  ultimately show ?thesis by (simp add: unat_of_nat)
qed

lemma blockActive_extent:
  fixes T t :: nat
  assumes "lastBandChangeTime s = of_nat T" and "T \<le> t" and "t < T + 2 ^ 32"
  shows "blockActive (of_nat t) s = (t \<le> T + unat (bandBlockTimeMs s))"
proof -
  have "blockActive (of_nat t) s = (unat ((of_nat t :: u32) - of_nat T) \<le> unat (bandBlockTimeMs s))"
    by (simp add: blockActive_def assms(1) word_le_nat_alt)
  also have "\<dots> = (t - T \<le> unat (bandBlockTimeMs s))"
    by (simp add: elapsed_word [OF assms(2,3)])
  also have "\<dots> = (t \<le> T + unat (bandBlockTimeMs s))"
    using assms(2) by auto
  finally show ?thesis .
qed

subsection \<open>What one tick writes\<close>

lemma hal_gpio:
  "gpio (handleAmplifierLogic e s) =
     (if pins e pttInp = LOW
      then (gpio s)(pttOut := (if blockActive (now_ms e) s then LOW else HIGH))
      else if readBandCode (pins e) = bandOld s then (gpio s)(pttOut := LOW)
      else gpio (applyBandOutputs (connected e) (readBandCode (pins e))
                  (digitalWrite pttOut LOW s)))"
  by (simp add: handleAmplifierLogic_def Let_def bc_gpio abo_gpio)

lemma setup_gpio:
  "gpio (setup_R140 b) =
     (\<lambda>_. LOW)
       (8 := if pattern (readBandCode (boot_pins b)) AND 1 \<noteq> 0 then HIGH else LOW,
        9 := if pattern (readBandCode (boot_pins b)) AND 2 \<noteq> 0 then HIGH else LOW,
        10 := if pattern (readBandCode (boot_pins b)) AND 4 \<noteq> 0 then HIGH else LOW,
        11 := if pattern (readBandCode (boot_pins b)) AND 8 \<noteq> 0 then HIGH else LOW)"
  by (rule ext)
     (simp add: setup_R140_def Let_def globals_def loadConfigFromEEPROM_def setupWiFi_def upt4
        abo_gpio bandOutPins_def)

lemma tick_debug_eq:
  "tick_debug e s =
     (if debugEnabled s then
        (if pins e pttInp = LOW then
           (if \<not> blockActive (now_ms e) s
            then (if \<not> pttState s then [PttTxOn] else [])
            else (if \<not> pttBlockReported s then [PttBlocked (block_ptt_seconds s)] else []))
         else
           (if pttState s then [PttTxOff] else []) @
           (if readBandCode (pins e) \<noteq> bandOld s
            then [BandChangeDetected (bandOld s) (readBandCode (pins e)),
                  BandBlocking (block_ptt_seconds s),
                  BandCodePattern (readBandCode (pins e)) (pattern (readBandCode (pins e)))]
            else [])) @
        (if pins e uglasevanje = LOW then [UglLow] else [])
      else [])"
  by (simp add: tick_debug_def hal_serial)

lemma tick_status_len:
  "length (tick_status e s) =
     (if connected e \<and> topic_status_set s
      then (if pttState (handleAmplifierLogic e s) \<noteq> pttState s then 1 else 0) +
           (if band_change_detected e s then 1 else 0)
      else 0)"
  by (simp add: tick_status_def hal_status)

subsection \<open>Evaluating the concrete inputs\<close>

lemma tick_at_fields [simp]:
  "pins (tick_at t rd c) = rd"
  "now_ms (tick_at t rd c) = t"
  "change_ms (tick_at t rd c) = t"
  "deadline_ms (tick_at t rd c) = t"
  "connected (tick_at t rd c) = c"
  by (simp_all add: tick_at_def)

lemma wiring_read [simp]:
  "wiring ptt ugl i0 i1 i2 i3 pttInp = ptt"
  "wiring ptt ugl i0 i1 i2 i3 uglasevanje = ugl"
  "readBandCode (wiring ptt ugl HIGH HIGH HIGH LOW) = 7"
  "readBandCode (wiring ptt ugl LOW HIGH LOW HIGH) = 10"
  by (simp_all add: wiring_def pttInp_def uglasevanje_def A0_def readBandCode_def upt4
      bandInPins_def Mask_def)

lemma boot_ex_fields [simp]:
  "boot_ms boot_ex = 0"
  "eeprom_block_ptt_seconds boot_ex = 15"
  "boot_wifi boot_ex"
  "boot_pins boot_ex = wiring HIGH HIGH HIGH HIGH HIGH LOW"
  by (simp_all add: boot_ex_def)

lemmas eval = loop_fields loop_blockActive loop_debugEnabled hal_pttState hal_pttBlockReported
  hal_gpio hal_band setup_fields setup_gpio blockActive_def pttOut_def
  tick_debug_eq tick_status_len band_change_detected_def denial_onset_def tx_asserted_def
  ptt_released_def is_denial_def abo_gpio bandOutPins_def pattern_def

lemma basic_bits:
  "bit (switch_basic b pd) 2 = (pattern b AND 1 \<noteq> 0)"
  "bit (switch_basic b pd) 3 = (pattern b AND 2 \<noteq> 0)"
  "bit (switch_basic b pd) 4 = (pattern b AND 4 \<noteq> 0)"
  "bit (switch_basic b pd) 5 = (pattern b AND 8 \<noteq> 0)"
  by (simp_all add: switch_basic_def pattern_def bit_or_iff bit_and_iff)

lemma bit_masks:
  fixes w :: u8
  shows "(w AND 1 \<noteq> 0) = bit w 0" and "(w AND 2 \<noteq> 0) = bit w 1"
    and "(w AND 4 \<noteq> 0) = bit w 2" and "(w AND 8 \<noteq> 0) = bit w 3"
  using bit_iff_and_push_bit_not_eq_0 [of w 0] bit_iff_and_push_bit_not_eq_0 [of w 1]
    bit_iff_and_push_bit_not_eq_0 [of w 2] bit_iff_and_push_bit_not_eq_0 [of w 3]
  by simp_all

section \<open>The claims\<close>

text \<open>
  Claim C1. For every sequence of passes of the loop after boot, the pass that follows
  leaves the amplifier PTT output high, and \<open>pttState\<close> at TX, exactly when that pass read
  the PTT input pressed and computed \<open>blockActive\<close> false. So the output is never asserted
  by a tick in which \<open>blockActive\<close> is true, and the state reaches TX only on a tick with
  the PTT input pressed and the block inactive.
\<close>

theorem interlock_never_tx_while_blocked:
  "pttState (loop e (run pre (setup_R140 b))) =
     (pins e pttInp = LOW \<and> \<not> blockActive (now_ms e) (run pre (setup_R140 b))) \<and>
   gpio (loop e (run pre (setup_R140 b))) pttOut =
     (if pins e pttInp = LOW \<and> \<not> blockActive (now_ms e) (run pre (setup_R140 b))
      then HIGH else LOW)"
  by (simp add: loop_fields hal_pttState hal_pttOut)

text \<open>
  After the band change at 5000 ms the press at 10000 ms falls inside the window and is
  denied; the press at 21000 ms is allowed.
\<close>

theorem interlock_never_tx_while_blocked_witness:
  "blockActive (now_ms (tick_at 10000 (wiring LOW HIGH LOW HIGH LOW HIGH) True))
     (run [tick_at 5000 (wiring HIGH HIGH LOW HIGH LOW HIGH) True] (setup_R140 boot_ex)) \<and>
   \<not> pttState (loop (tick_at 10000 (wiring LOW HIGH LOW HIGH LOW HIGH) True)
     (run [tick_at 5000 (wiring HIGH HIGH LOW HIGH LOW HIGH) True] (setup_R140 boot_ex))) \<and>
   gpio (loop (tick_at 10000 (wiring LOW HIGH LOW HIGH LOW HIGH) True)
     (run [tick_at 5000 (wiring HIGH HIGH LOW HIGH LOW HIGH) True] (setup_R140 boot_ex)))
     pttOut = LOW \<and>
   pttState (loop (tick_at 21000 (wiring LOW HIGH LOW HIGH LOW HIGH) True)
     (run [tick_at 5000 (wiring HIGH HIGH LOW HIGH LOW HIGH) True] (setup_R140 boot_ex)))"
  using interlock_never_tx_while_blocked
    [of "tick_at 10000 (wiring LOW HIGH LOW HIGH LOW HIGH) True"
        "[tick_at 5000 (wiring HIGH HIGH LOW HIGH LOW HIGH) True]" boot_ex]
    interlock_never_tx_while_blocked
    [of "tick_at 21000 (wiring LOW HIGH LOW HIGH LOW HIGH) True"
        "[tick_at 5000 (wiring HIGH HIGH LOW HIGH LOW HIGH) True]" boot_ex]
  by (simp add: eval)

text \<open>
  Claim C2. A pass of the loop that reads the PTT input pressed leaves \<open>band\<close>,
  \<open>bandOld\<close>, \<open>lastBandChangeTime\<close> and the four band output pins as they were,
  whatever the band input pins read.
\<close>

theorem band_frozen_while_ptt_pressed:
  assumes "pins e pttInp = LOW"
  shows "band (loop e s) = band s \<and> bandOld (loop e s) = bandOld s \<and>
         lastBandChangeTime (loop e s) = lastBandChangeTime s \<and>
         map (gpio (loop e s)) bandOutPins = map (gpio s) bandOutPins"
  using assms by (simp add: loop_fields hal_band hal_band_pins)

text \<open>Booted on band 7; the band pins move to code 10 while the PTT input is pressed.\<close>

theorem band_frozen_while_ptt_pressed_witness:
  "pins (tick_at 20000 (wiring LOW HIGH LOW HIGH LOW HIGH) True) pttInp = LOW \<and>
   readBandCode (pins (tick_at 20000 (wiring LOW HIGH LOW HIGH LOW HIGH) True)) = 10 \<and>
   band (loop (tick_at 20000 (wiring LOW HIGH LOW HIGH LOW HIGH) True) (setup_R140 boot_ex)) = 7 \<and>
   bandOld (loop (tick_at 20000 (wiring LOW HIGH LOW HIGH LOW HIGH) True) (setup_R140 boot_ex)) = 7 \<and>
   lastBandChangeTime
     (loop (tick_at 20000 (wiring LOW HIGH LOW HIGH LOW HIGH) True) (setup_R140 boot_ex)) = 0 \<and>
   map (gpio (loop (tick_at 20000 (wiring LOW HIGH LOW HIGH LOW HIGH) True) (setup_R140 boot_ex)))
     bandOutPins = [HIGH, HIGH, HIGH, LOW]"
proof -
  have pressed: "pins (tick_at 20000 (wiring LOW HIGH LOW HIGH LOW HIGH) True) pttInp = LOW"
    by simp
  have before: "band (setup_R140 boot_ex) = 7 \<and> bandOld (setup_R140 boot_ex) = 7 \<and>
      lastBandChangeTime (setup_R140 boot_ex) = 0 \<and>
      map (gpio (setup_R140 boot_ex)) bandOutPins = [HIGH, HIGH, HIGH, LOW]"
    by (simp add: eval)
  from band_frozen_while_ptt_pressed [OF pressed, of "setup_R140 boot_ex"] before
  show ?thesis by simp
qed

text \<open>
  Claim C3. The claim: right after boot the block window is inactive and a PTT press on
  the first tick is allowed. The firmware: \<^verbatim>\<open>setup()\<close> leaves \<open>lastBandChangeTime\<close> at 0 (its
  comment reads "Initial band read (no block)"), and the block test compares
  \<^verbatim>\<open>millis() - 0\<close> with the block time, so the window is active until the clock passes
  the block time. With 15 seconds stored, a first tick at 5000 ms with the PTT input
  pressed is denied: the output stays low and the denial is logged.
\<close>

theorem first_tick_after_boot_is_blocked:
  "lastBandChangeTime (setup_R140 boot_ex) = 0 \<and>
   bandBlockTimeMs (setup_R140 boot_ex) = 15000 \<and>
   blockActive 5000 (setup_R140 boot_ex) \<and>
   \<not> pttState (loop (tick_at 5000 (wiring LOW HIGH HIGH HIGH HIGH LOW) True) (setup_R140 boot_ex)) \<and>
   gpio (loop (tick_at 5000 (wiring LOW HIGH HIGH HIGH HIGH LOW) True) (setup_R140 boot_ex))
     pttOut = LOW \<and>
   tick_debug (tick_at 5000 (wiring LOW HIGH HIGH HIGH HIGH LOW) True) (setup_R140 boot_ex) =
     [PttBlocked 15]"
  by (simp add: eval)

text \<open>
  Claim C4, as amended. Let a tick detect a band change and read the clock at \<open>T\<close>
  milliseconds. With \<open>D\<close> the block time in milliseconds, the block test at time \<open>t\<close> is
  true for \<open>T \<le> t \<le> T + D\<close>, the end included, and false for \<open>T + D < t\<close>, as long as
  fewer than \<open>2 ^ 32\<close> milliseconds have passed since \<open>T\<close> (the clock is a 32-bit counter
  and the test compares its value \<open>of_nat t\<close>).
\<close>

theorem block_window_extent:
  fixes T t :: nat
  assumes "pins e pttInp \<noteq> LOW" and "readBandCode (pins e) \<noteq> bandOld s"
    and "change_ms e = of_nat T" and "T \<le> t" and "t < T + 2 ^ 32"
  shows "blockActive (of_nat t) (loop e s) = (t \<le> T + unat (bandBlockTimeMs s))"
proof -
  have "lastBandChangeTime (loop e s) = of_nat T"
    using assms(1-3) by (simp add: loop_fields hal_band)
  from blockActive_extent [OF this assms(4,5)] show ?thesis
    by (simp add: loop_fields)
qed

text \<open>
  The change at 5000 ms with 15000 ms of block time: active at 12000 ms, inactive at
  25000 ms.
\<close>

theorem block_window_extent_witness:
  "pins (tick_at 5000 (wiring HIGH HIGH LOW HIGH LOW HIGH) True) pttInp \<noteq> LOW \<and>
   readBandCode (pins (tick_at 5000 (wiring HIGH HIGH LOW HIGH LOW HIGH) True)) \<noteq>
     bandOld (setup_R140 boot_ex) \<and>
   change_ms (tick_at 5000 (wiring HIGH HIGH LOW HIGH LOW HIGH) True) = of_nat 5000 \<and>
   (5000 :: nat) \<le> 12000 \<and> (12000 :: nat) < 5000 + 2 ^ 32 \<and>
   unat (bandBlockTimeMs (setup_R140 boot_ex)) = 15000 \<and>
   blockActive (of_nat 12000)
     (loop (tick_at 5000 (wiring HIGH HIGH LOW HIGH LOW HIGH) True) (setup_R140 boot_ex)) \<and>
   (5000 :: nat) \<le> 25000 \<and> (25000 :: nat) < 5000 + 2 ^ 32 \<and>
   \<not> blockActive (of_nat 25000)
     (loop (tick_at 5000 (wiring HIGH HIGH LOW HIGH LOW HIGH) True) (setup_R140 boot_ex))"
proof -
  have a: "pins (tick_at 5000 (wiring HIGH HIGH LOW HIGH LOW HIGH) True) pttInp \<noteq> LOW"
    by simp
  have b: "readBandCode (pins (tick_at 5000 (wiring HIGH HIGH LOW HIGH LOW HIGH) True)) \<noteq>
      bandOld (setup_R140 boot_ex)"
    by (simp add: eval)
  have c: "change_ms (tick_at 5000 (wiring HIGH HIGH LOW HIGH LOW HIGH) True) = of_nat 5000"
    by simp
  have d: "(5000 :: nat) \<le> 12000" by simp
  have f: "(12000 :: nat) < 5000 + 2 ^ 32" by simp
  have g: "unat (bandBlockTimeMs (setup_R140 boot_ex)) = 15000"
    by (simp add: eval)
  have d': "(5000 :: nat) \<le> 25000" by simp
  have f': "(25000 :: nat) < 5000 + 2 ^ 32" by simp
  from block_window_extent [OF a b c d f] block_window_extent [OF a b c d' f'] g a b c
  show ?thesis by simp
qed

text \<open>
  The claim has the test false at \<open>t = T + D\<close>. With the change at 5000 ms and 15000 ms
  of block time, the test at 20000 ms is still true.
\<close>

theorem block_window_end_counterexample:
  "lastBandChangeTime
     (loop (tick_at 5000 (wiring HIGH HIGH LOW HIGH LOW HIGH) True) (setup_R140 boot_ex)) = 5000 \<and>
   bandBlockTimeMs
     (loop (tick_at 5000 (wiring HIGH HIGH LOW HIGH LOW HIGH) True) (setup_R140 boot_ex)) = 15000 \<and>
   blockActive 20000
     (loop (tick_at 5000 (wiring HIGH HIGH LOW HIGH LOW HIGH) True) (setup_R140 boot_ex)) \<and>
   \<not> blockActive 20001
     (loop (tick_at 5000 (wiring HIGH HIGH LOW HIGH LOW HIGH) True) (setup_R140 boot_ex))"
  by (simp add: eval)

text \<open>
  Claim C5. \<^verbatim>\<open>applyBandOutputs\<close> maps the band codes 0 to 15 to the patterns of the table:
  15 to 1111, 14 to 0000, 13 to 0001, 12 to 0010, 11 to 0011, 10 to 0100, 9 to 0101,
  8 to 0110, 7 to 0111, 6 to 1000, 5 to 1001 and each of 0 to 4 to 1111; bit \<open>i\<close> of the
  pattern is written to output pin \<open>i\<close> (the lists give the levels of OUT0 to OUT3).
\<close>

theorem output_mapper_table:
  "map pattern [0, 1, 2, 3, 4, 5, 6, 7, 8, 9, 10, 11, 12, 13, 14, 15] =
     [15, 15, 15, 15, 15, 9, 8, 7, 6, 5, 4, 3, 2, 1, 0, 15] \<and>
   map (gpio (applyBandOutputs c b s)) bandOutPins =
     map (\<lambda>i. if bit (pattern b) i then HIGH else LOW) [0, 1, 2, 3] \<and>
   map (gpio (applyBandOutputs c 15 s)) bandOutPins = [HIGH, HIGH, HIGH, HIGH] \<and>
   map (gpio (applyBandOutputs c 14 s)) bandOutPins = [LOW, LOW, LOW, LOW] \<and>
   map (gpio (applyBandOutputs c 13 s)) bandOutPins = [HIGH, LOW, LOW, LOW] \<and>
   map (gpio (applyBandOutputs c 12 s)) bandOutPins = [LOW, HIGH, LOW, LOW] \<and>
   map (gpio (applyBandOutputs c 11 s)) bandOutPins = [HIGH, HIGH, LOW, LOW] \<and>
   map (gpio (applyBandOutputs c 10 s)) bandOutPins = [LOW, LOW, HIGH, LOW] \<and>
   map (gpio (applyBandOutputs c 9 s)) bandOutPins = [HIGH, LOW, HIGH, LOW] \<and>
   map (gpio (applyBandOutputs c 8 s)) bandOutPins = [LOW, HIGH, HIGH, LOW] \<and>
   map (gpio (applyBandOutputs c 7 s)) bandOutPins = [HIGH, HIGH, HIGH, LOW] \<and>
   map (gpio (applyBandOutputs c 6 s)) bandOutPins = [LOW, LOW, LOW, HIGH] \<and>
   map (gpio (applyBandOutputs c 5 s)) bandOutPins = [HIGH, LOW, LOW, HIGH] \<and>
   map (gpio (applyBandOutputs c 4 s)) bandOutPins = [HIGH, HIGH, HIGH, HIGH] \<and>
   map (gpio (applyBandOutputs c 3 s)) bandOutPins = [HIGH, HIGH, HIGH, HIGH] \<and>
   map (gpio (applyBandOutputs c 2 s)) bandOutPins = [HIGH, HIGH, HIGH, HIGH] \<and>
   map (gpio (applyBandOutputs c 1 s)) bandOutPins = [HIGH, HIGH, HIGH, HIGH] \<and>
   map (gpio (applyBandOutputs c 0 s)) bandOutPins = [HIGH, HIGH, HIGH, HIGH]"
proof -
  have bits: "map (gpio (applyBandOutputs c b s)) bandOutPins =
      map (\<lambda>i. if bit (pattern b) i then HIGH else LOW) [0, 1, 2, 3]"
    by (simp add: abo_gpio bandOutPins_def bit_masks)
  have codes: "map pattern [0, 1, 2, 3, 4, 5, 6, 7, 8, 9, 10, 11, 12, 13, 14, 15] =
      [15, 15, 15, 15, 15, 9, 8, 7, 6, 5, 4, 3, 2, 1, 0, 15]"
    by (simp add: pattern_def)
  show ?thesis
    by (intro conjI bits codes) (simp_all add: abo_gpio bandOutPins_def pattern_def)
qed

text \<open>
  Claim C6, as amended. \<^verbatim>\<open>publishAmpStatus\<close> returns at once unless the MQTT client is
  connected and the status topic is set. When both hold, a tick publishes exactly one
  status document if \<open>pttState\<close> at its end differs from \<open>pttState\<close> at its start, exactly
  one more if it detected a band change, and none if neither happened; when the client is
  not connected or the topic is empty, a tick publishes none.
\<close>

theorem status_snapshot_count:
  "length (tick_status e s) =
     (if connected e \<and> topic_status_set s
      then (if pttState (handleAmplifierLogic e s) \<noteq> pttState s then 1 else 0) +
           (if band_change_detected e s then 1 else 0)
      else 0)"
  by (simp add: tick_status_def hal_status)

text \<open>
  Connected: the band change at 5000 ms gives one document; the release at 22000 ms, with
  the band pins back on code 7 in the same tick, gives two; the quiet tick after it none.
\<close>

theorem status_snapshot_count_witness:
  "length (tick_status (tick_at 5000 (wiring HIGH HIGH LOW HIGH LOW HIGH) True)
     (setup_R140 boot_ex)) = 1 \<and>
   length (tick_status (tick_at 22000 (wiring HIGH HIGH HIGH HIGH HIGH LOW) True)
     (run [tick_at 5000 (wiring HIGH HIGH LOW HIGH LOW HIGH) True,
           tick_at 21000 (wiring LOW HIGH LOW HIGH LOW HIGH) True] (setup_R140 boot_ex))) = 2 \<and>
   length (tick_status (tick_at 22005 (wiring HIGH HIGH HIGH HIGH HIGH LOW) True)
     (run [tick_at 5000 (wiring HIGH HIGH LOW HIGH LOW HIGH) True,
           tick_at 21000 (wiring LOW HIGH LOW HIGH LOW HIGH) True,
           tick_at 22000 (wiring HIGH HIGH HIGH HIGH HIGH LOW) True] (setup_R140 boot_ex))) = 0"
  using status_snapshot_count
    [of "tick_at 5000 (wiring HIGH HIGH LOW HIGH LOW HIGH) True" "setup_R140 boot_ex"]
    status_snapshot_count
    [of "tick_at 22000 (wiring HIGH HIGH HIGH HIGH HIGH LOW) True"
        "run [tick_at 5000 (wiring HIGH HIGH LOW HIGH LOW HIGH) True,
              tick_at 21000 (wiring LOW HIGH LOW HIGH LOW HIGH) True] (setup_R140 boot_ex)"]
    status_snapshot_count
    [of "tick_at 22005 (wiring HIGH HIGH HIGH HIGH HIGH LOW) True"
        "run [tick_at 5000 (wiring HIGH HIGH LOW HIGH LOW HIGH) True,
              tick_at 21000 (wiring LOW HIGH LOW HIGH LOW HIGH) True,
              tick_at 22000 (wiring HIGH HIGH HIGH HIGH HIGH LOW) True] (setup_R140 boot_ex)"]
  by (simp add: eval)

text \<open>
  The claim has one document for every transition. With the client not connected, the
  press at 20000 ms takes \<open>pttState\<close> from RX to TX and nothing is published.
\<close>

theorem status_snapshot_disconnected_counterexample:
  "\<not> pttState (setup_R140 boot_ex) \<and>
   pttState (handleAmplifierLogic (tick_at 20000 (wiring LOW HIGH HIGH HIGH HIGH LOW) False)
     (setup_R140 boot_ex)) \<and>
   tick_status (tick_at 20000 (wiring LOW HIGH HIGH HIGH HIGH LOW) False) (setup_R140 boot_ex) = []"
  by (simp add: eval tick_status_def hal_status)

text \<open>
  Claim C7, as amended. Take a tick that reads the PTT input pressed while the block is
  active. If the pass of the loop before it was itself such a denial, the tick writes no
  denial line. Otherwise (the pass before it read the PTT input released, or allowed the
  press; or the tick is the first after boot) it writes the denial line once if debug
  output is still enabled, and no denial line if debug output has been switched off.
\<close>

theorem denial_debug_edge_triggered:
  "(pins e2 pttInp = LOW \<and> blockActive (now_ms e2) (loop e1 s) \<longrightarrow>
      filter is_denial (tick_debug e2 (loop e1 s)) =
        (if pins e1 pttInp = LOW \<and> blockActive (now_ms e1) s then []
         else if debugEnabled (loop e1 s) then [PttBlocked (block_ptt_seconds s)]
         else [])) \<and>
   (pins e2 pttInp = LOW \<and> blockActive (now_ms e2) (setup_R140 b) \<longrightarrow>
      filter is_denial (tick_debug e2 (setup_R140 b)) =
        [PttBlocked (block_ptt_seconds (setup_R140 b))])"
proof (intro conjI impI)
  assume a: "pins e2 pttInp = LOW \<and> blockActive (now_ms e2) (loop e1 s)"
  then show "filter is_denial (tick_debug e2 (loop e1 s)) =
      (if pins e1 pttInp = LOW \<and> blockActive (now_ms e1) s then []
       else if debugEnabled (loop e1 s) then [PttBlocked (block_ptt_seconds s)]
       else [])"
    by (simp add: tick_debug_eq loop_fields hal_pttBlockReported is_denial_def)
next
  assume "pins e2 pttInp = LOW \<and> blockActive (now_ms e2) (setup_R140 b)"
  then show "filter is_denial (tick_debug e2 (setup_R140 b)) =
      [PttBlocked (block_ptt_seconds (setup_R140 b))]"
    by (simp add: tick_debug_eq setup_fields(2,5) is_denial_def)
qed

text \<open>
  The band changes at 5000 ms; the press at 10000 ms is the first tick of a denial and is
  logged; the tick at 10005 ms, still pressed and still blocked, logs nothing. A press on
  the first tick after boot, at 5000 ms, is logged as well.
\<close>

theorem denial_debug_edge_triggered_witness:
  "pins (tick_at 10000 (wiring LOW HIGH LOW HIGH LOW HIGH) True) pttInp = LOW \<and>
   blockActive (now_ms (tick_at 10000 (wiring LOW HIGH LOW HIGH LOW HIGH) True))
     (loop (tick_at 5000 (wiring HIGH HIGH LOW HIGH LOW HIGH) True) (setup_R140 boot_ex)) \<and>
   filter is_denial (tick_debug (tick_at 10000 (wiring LOW HIGH LOW HIGH LOW HIGH) True)
     (loop (tick_at 5000 (wiring HIGH HIGH LOW HIGH LOW HIGH) True) (setup_R140 boot_ex))) =
     [PttBlocked 15] \<and>
   pins (tick_at 10005 (wiring LOW HIGH LOW HIGH LOW HIGH) True) pttInp = LOW \<and>
   blockActive (now_ms (tick_at 10005 (wiring LOW HIGH LOW HIGH LOW HIGH) True))
     (loop (tick_at 10000 (wiring LOW HIGH LOW HIGH LOW HIGH) True)
       (loop (tick_at 5000 (wiring HIGH HIGH LOW HIGH LOW HIGH) True) (setup_R140 boot_ex))) \<and>
   filter is_denial (tick_debug (tick_at 10005 (wiring LOW HIGH LOW HIGH LOW HIGH) True)
     (loop (tick_at 10000 (wiring LOW HIGH LOW HIGH LOW HIGH) True)
       (loop (tick_at 5000 (wiring HIGH HIGH LOW HIGH LOW HIGH) True) (setup_R140 boot_ex)))) =
     [] \<and>
   pins (tick_at 5000 (wiring LOW HIGH HIGH HIGH HIGH LOW) True) pttInp = LOW \<and>
   blockActive (now_ms (tick_at 5000 (wiring LOW HIGH HIGH HIGH HIGH LOW) True))
     (setup_R140 boot_ex) \<and>
   filter is_denial (tick_debug (tick_at 5000 (wiring LOW HIGH HIGH HIGH HIGH LOW) True)
     (setup_R140 boot_ex)) = [PttBlocked 15]"
  using denial_debug_edge_triggered
    [of "tick_at 10000 (wiring LOW HIGH LOW HIGH LOW HIGH) True"
        "tick_at 5000 (wiring HIGH HIGH LOW HIGH LOW HIGH) True" "setup_R140 boot_ex"
        boot_ex]
    denial_debug_edge_triggered
    [of "tick_at 10005 (wiring LOW HIGH LOW HIGH LOW HIGH) True"
        "tick_at 10000 (wiring LOW HIGH LOW HIGH LOW HIGH) True"
        "loop (tick_at 5000 (wiring HIGH HIGH LOW HIGH LOW HIGH) True) (setup_R140 boot_ex)"
        boot_ex]
    denial_debug_edge_triggered
    [of "tick_at 5000 (wiring LOW HIGH HIGH HIGH HIGH LOW) True"
        "tick_at 5000 (wiring LOW HIGH HIGH HIGH HIGH LOW) True" "setup_R140 boot_ex"
        boot_ex]
  by (simp add: eval)

text \<open>
  The claim has the denial logged on the first tick of every denial. The pass at 61000 ms
  switches debug output off; the band changes at 70000 ms; the press at 71000 ms is the
  first tick of a denial (the pass before it read the PTT input released) and writes no
  line at all.
\<close>

theorem denial_debug_disabled_counterexample:
  "pins (tick_at 70000 (wiring HIGH HIGH LOW HIGH LOW HIGH) True) pttInp = HIGH \<and>
   pins (tick_at 71000 (wiring LOW HIGH LOW HIGH LOW HIGH) True) pttInp = LOW \<and>
   blockActive (now_ms (tick_at 71000 (wiring LOW HIGH LOW HIGH LOW HIGH) True))
     (run [tick_at 61000 (wiring HIGH HIGH HIGH HIGH HIGH LOW) True,
           tick_at 70000 (wiring HIGH HIGH LOW HIGH LOW HIGH) True] (setup_R140 boot_ex)) \<and>
   \<not> pttBlockReported
     (run [tick_at 61000 (wiring HIGH HIGH HIGH HIGH HIGH LOW) True,
           tick_at 70000 (wiring HIGH HIGH LOW HIGH LOW HIGH) True] (setup_R140 boot_ex)) \<and>
   tick_debug (tick_at 71000 (wiring LOW HIGH LOW HIGH LOW HIGH) True)
     (run [tick_at 61000 (wiring HIGH HIGH HIGH HIGH HIGH LOW) True,
           tick_at 70000 (wiring HIGH HIGH LOW HIGH LOW HIGH) True] (setup_R140 boot_ex)) = []"
  by (simp add: eval)

text \<open>
  Claim C8, as amended. \<^verbatim>\<open>handleAmplifierLogic\<close> writes debug lines only while debug
  output is enabled, and then exactly these, in this order: one line when PTT becomes
  allowed and is asserted from RX, one line at the onset of a PTT denial, one line when
  PTT is released from TX, three lines when a band change is detected, and one line on
  every tick on which the tuning input (\<^verbatim>\<open>uglasevanje\<close>) reads low. The fifth trigger is a
  level, not an edge. A tick that reads the pins as the pass before it did, with the
  block test unchanged, writes no debug line but that of the tuning input, and that one
  only if the input reads low and debug output is enabled.
\<close>

theorem debug_triggers:
  "tick_debug e s =
     (if debugEnabled s then
        (if tx_asserted e s then [PttTxOn] else []) @
        (if denial_onset e s then [PttBlocked (block_ptt_seconds s)] else []) @
        (if ptt_released e s then [PttTxOff] else []) @
        (if band_change_detected e s
         then [BandChangeDetected (bandOld s) (readBandCode (pins e)),
               BandBlocking (block_ptt_seconds s),
               BandCodePattern (readBandCode (pins e)) (pattern (readBandCode (pins e)))]
         else []) @
        (if pins e uglasevanje = LOW then [UglLow] else [])
      else []) \<and>
   (pins e2 = pins e1 \<and> blockActive (now_ms e2) (loop e1 s) = blockActive (now_ms e1) s \<longrightarrow>
      tick_debug e2 (loop e1 s) =
        (if debugEnabled (loop e1 s) \<and> pins e2 uglasevanje = LOW then [UglLow] else []))"
proof (intro conjI impI)
  show "tick_debug e s =
     (if debugEnabled s then
        (if tx_asserted e s then [PttTxOn] else []) @
        (if denial_onset e s then [PttBlocked (block_ptt_seconds s)] else []) @
        (if ptt_released e s then [PttTxOff] else []) @
        (if band_change_detected e s
         then [BandChangeDetected (bandOld s) (readBandCode (pins e)),
               BandBlocking (block_ptt_seconds s),
               BandCodePattern (readBandCode (pins e)) (pattern (readBandCode (pins e)))]
         else []) @
        (if pins e uglasevanje = LOW then [UglLow] else [])
      else [])"
    by (simp add: tick_debug_eq band_change_detected_def denial_onset_def tx_asserted_def
        ptt_released_def)
next
  assume "pins e2 = pins e1 \<and> blockActive (now_ms e2) (loop e1 s) = blockActive (now_ms e1) s"
  then show "tick_debug e2 (loop e1 s) =
      (if debugEnabled (loop e1 s) \<and> pins e2 uglasevanje = LOW then [UglLow] else [])"
    by (auto simp: tick_debug_eq loop_fields hal_pttState hal_pttBlockReported hal_band)
qed

text \<open>
  The tick at 5000 ms detects a band change and writes its three lines; the tick at
  5005 ms reads the same pins, the tuning input high, and writes nothing. With the tuning
  input held low, the tick at 1005 ms after the one at 1000 ms writes the line of the
  tuning input and nothing else.
\<close>

theorem debug_triggers_witness:
  "tick_debug (tick_at 5000 (wiring HIGH HIGH LOW HIGH LOW HIGH) True) (setup_R140 boot_ex) =
     [BandChangeDetected 7 10, BandBlocking 15, BandCodePattern 10 4] \<and>
   pins (tick_at 5005 (wiring HIGH HIGH LOW HIGH LOW HIGH) True) =
     pins (tick_at 5000 (wiring HIGH HIGH LOW HIGH LOW HIGH) True) \<and>
   blockActive (now_ms (tick_at 5005 (wiring HIGH HIGH LOW HIGH LOW HIGH) True))
     (loop (tick_at 5000 (wiring HIGH HIGH LOW HIGH LOW HIGH) True) (setup_R140 boot_ex)) =
     blockActive (now_ms (tick_at 5000 (wiring HIGH HIGH LOW HIGH LOW HIGH) True))
       (setup_R140 boot_ex) \<and>
   tick_debug (tick_at 5005 (wiring HIGH HIGH LOW HIGH LOW HIGH) True)
     (loop (tick_at 5000 (wiring HIGH HIGH LOW HIGH LOW HIGH) True) (setup_R140 boot_ex)) = [] \<and>
   pins (tick_at 1005 (wiring HIGH LOW HIGH HIGH HIGH LOW) True) =
     pins (tick_at 1000 (wiring HIGH LOW HIGH HIGH HIGH LOW) True) \<and>
   blockActive (now_ms (tick_at 1005 (wiring HIGH LOW HIGH HIGH HIGH LOW) True))
     (loop (tick_at 1000 (wiring HIGH LOW HIGH HIGH HIGH LOW) True) (setup_R140 boot_ex)) =
     blockActive (now_ms (tick_at 1000 (wiring HIGH LOW HIGH HIGH HIGH LOW) True))
       (setup_R140 boot_ex) \<and>
   tick_debug (tick_at 1005 (wiring HIGH LOW HIGH HIGH HIGH LOW) True)
     (loop (tick_at 1000 (wiring HIGH LOW HIGH HIGH HIGH LOW) True) (setup_R140 boot_ex)) =
     [UglLow]"
  using debug_triggers
    [of "tick_at 5000 (wiring HIGH HIGH LOW HIGH LOW HIGH) True" "setup_R140 boot_ex"
        "tick_at 5005 (wiring HIGH HIGH LOW HIGH LOW HIGH) True"
        "tick_at 5000 (wiring HIGH HIGH LOW HIGH LOW HIGH) True"]
    debug_triggers
    [of "tick_at 1000 (wiring HIGH LOW HIGH HIGH HIGH LOW) True" "setup_R140 boot_ex"
        "tick_at 1005 (wiring HIGH LOW HIGH HIGH HIGH LOW) True"
        "tick_at 1000 (wiring HIGH LOW HIGH HIGH HIGH LOW) True"]
  by (simp add: eval)

text \<open>
  The claim has no debug line on a tick whose inputs and state are those of the tick
  before. With the tuning input held low, the tick at 1005 ms reads the pins of the tick
  at 1000 ms, none of the four triggers of the claim holds, the state is as the tick
  found it, and the line of the tuning input is written again.
\<close>

theorem debug_steady_state_counterexample:
  "pins (tick_at 1005 (wiring HIGH LOW HIGH HIGH HIGH LOW) True) =
     pins (tick_at 1000 (wiring HIGH LOW HIGH HIGH HIGH LOW) True) \<and>
   tick_debug (tick_at 1000 (wiring HIGH LOW HIGH HIGH HIGH LOW) True) (setup_R140 boot_ex) =
     [UglLow] \<and>
   tick_debug (tick_at 1005 (wiring HIGH LOW HIGH HIGH HIGH LOW) True)
     (loop (tick_at 1000 (wiring HIGH LOW HIGH HIGH HIGH LOW) True) (setup_R140 boot_ex)) =
     [UglLow] \<and>
   \<not> band_change_detected (tick_at 1005 (wiring HIGH LOW HIGH HIGH HIGH LOW) True)
     (loop (tick_at 1000 (wiring HIGH LOW HIGH HIGH HIGH LOW) True) (setup_R140 boot_ex)) \<and>
   \<not> denial_onset (tick_at 1005 (wiring HIGH LOW HIGH HIGH HIGH LOW) True)
     (loop (tick_at 1000 (wiring HIGH LOW HIGH HIGH HIGH LOW) True) (setup_R140 boot_ex)) \<and>
   \<not> tx_asserted (tick_at 1005 (wiring HIGH LOW HIGH HIGH HIGH LOW) True)
     (loop (tick_at 1000 (wiring HIGH LOW HIGH HIGH HIGH LOW) True) (setup_R140 boot_ex)) \<and>
   \<not> ptt_released (tick_at 1005 (wiring HIGH LOW HIGH HIGH HIGH LOW) True)
     (loop (tick_at 1000 (wiring HIGH LOW HIGH HIGH HIGH LOW) True) (setup_R140 boot_ex)) \<and>
   pttState (handleAmplifierLogic (tick_at 1005 (wiring HIGH LOW HIGH HIGH HIGH LOW) True)
     (loop (tick_at 1000 (wiring HIGH LOW HIGH HIGH HIGH LOW) True) (setup_R140 boot_ex))) =
     pttState (loop (tick_at 1000 (wiring HIGH LOW HIGH HIGH HIGH LOW) True)
       (setup_R140 boot_ex)) \<and>
   band (handleAmplifierLogic (tick_at 1005 (wiring HIGH LOW HIGH HIGH HIGH LOW) True)
     (loop (tick_at 1000 (wiring HIGH LOW HIGH HIGH HIGH LOW) True) (setup_R140 boot_ex))) =
     band (loop (tick_at 1000 (wiring HIGH LOW HIGH HIGH HIGH LOW) True) (setup_R140 boot_ex))"
  by (simp add: eval)

text \<open>
  Claim C9. On a band change to the code \<open>b\<close> (the low nibble of \<^verbatim>\<open>PINC\<close>), the earlier
  sketch leaves bits 2 to 5 of \<^verbatim>\<open>PORTD\<close> at the levels that \<^verbatim>\<open>applyBandOutputs\<close> of the
  current firmware writes to its output pins 0 to 3 for the same code.
\<close>

theorem basic_sketch_same_mapping:
  assumes "pinc AND Mask \<noteq> basic_bandOld t"
  shows "map (\<lambda>i. if bit (PORTD (bandControl_basic pinc t)) (i + 2) then HIGH else LOW)
           [0, 1, 2, 3] =
         map (gpio (applyBandOutputs c (pinc AND Mask) s)) bandOutPins"
proof -
  have port: "PORTD (bandControl_basic pinc t) = switch_basic (pinc AND Mask) (PORTD t)"
    using assms by (simp add: bandControl_basic_def Let_def)
  have old: "map (\<lambda>i. if bit (switch_basic (pinc AND Mask) (PORTD t)) (i + 2) then HIGH else LOW)
        [0, 1, 2, 3] =
      [if bit (switch_basic (pinc AND Mask) (PORTD t)) 2 then HIGH else LOW,
       if bit (switch_basic (pinc AND Mask) (PORTD t)) 3 then HIGH else LOW,
       if bit (switch_basic (pinc AND Mask) (PORTD t)) 4 then HIGH else LOW,
       if bit (switch_basic (pinc AND Mask) (PORTD t)) 5 then HIGH else LOW]"
    by (simp add: numeral_eq_Suc)
  have new: "map (gpio (applyBandOutputs c (pinc AND Mask) s)) bandOutPins =
      [if pattern (pinc AND Mask) AND 1 \<noteq> 0 then HIGH else LOW,
       if pattern (pinc AND Mask) AND 2 \<noteq> 0 then HIGH else LOW,
       if pattern (pinc AND Mask) AND 4 \<noteq> 0 then HIGH else LOW,
       if pattern (pinc AND Mask) AND 8 \<noteq> 0 then HIGH else LOW]"
    by (simp add: abo_gpio bandOutPins_def)
  show ?thesis
    unfolding port old new by (simp only: basic_bits)
qed

text \<open>\<^verbatim>\<open>PINC\<close> reads 0xFA, code 10, with all four relay bits set before.\<close>

theorem basic_sketch_same_mapping_witness:
  "(0xFA :: u8) AND Mask \<noteq> basic_bandOld basic_ex \<and>
   map (\<lambda>i. if bit (PORTD (bandControl_basic 0xFA basic_ex)) (i + 2) then HIGH else LOW)
     [0, 1, 2, 3] = [LOW, LOW, HIGH, LOW] \<and>
   map (gpio (applyBandOutputs False (0xFA AND Mask) globals)) bandOutPins =
     [LOW, LOW, HIGH, LOW]"
proof -
  have code: "(0xFA :: u8) AND Mask = 10"
    by (simp add: Mask_def)
  have changed: "(0xFA :: u8) AND Mask \<noteq> basic_bandOld basic_ex"
    by (simp add: code basic_ex_def)
  have new: "map (gpio (applyBandOutputs False (0xFA AND Mask) globals)) bandOutPins =
      [LOW, LOW, HIGH, LOW]"
    by (simp add: code abo_gpio bandOutPins_def pattern_def)
  from basic_sketch_same_mapping [OF changed, of False globals] changed new
  show ?thesis by simp
qed

text \<open>
  Claim C10, as amended. \<^verbatim>\<open>setup()\<close> puts the debug deadline 60000 ms after its reading
  of the clock, and \<^verbatim>\<open>loop()\<close> tests it after \<^verbatim>\<open>handleAmplifierLogic\<close>. In the first pass
  whose test reads the clock at or after the deadline, \<^verbatim>\<open>handleAmplifierLogic\<close> has
  already run and has written its debug lines as before; the test then clears
  \<open>debugEnabled\<close>, which stays cleared for good, and from the test on nothing is added to
  the serial port or to the debug topic: not by the rest of that pass, and not by any
  later pass, whatever the inputs.
\<close>

theorem debug_time_limited:
  assumes "60000 + boot_ms b \<noteq> 0" and "60000 + boot_ms b \<le> deadline_ms e"
  shows "\<not> debugEnabled (run (pre @ [e]) (setup_R140 b)) \<and>
         \<not> debugEnabled (run (pre @ e # post) (setup_R140 b)) \<and>
         serial (run (pre @ e # post) (setup_R140 b)) =
           serial (handleAmplifierLogic e (run pre (setup_R140 b))) \<and>
         mqtt_debug (run (pre @ e # post) (setup_R140 b)) =
           mqtt_debug (handleAmplifierLogic e (run pre (setup_R140 b)))"
proof -
  let ?s = "run pre (setup_R140 b)"
  have fired: "debugDeadline ?s \<noteq> 0 \<and> debugDeadline ?s \<le> deadline_ms e \<or> \<not> debugEnabled ?s"
  proof (cases "debugEnabled ?s")
    case True
    from run_enabled [OF True] have "debugDeadline ?s = 60000 + boot_ms b"
      by (simp add: setup_fields)
    with assms show ?thesis by simp
  next
    case False
    then show ?thesis by simp
  qed
  then have off: "\<not> debugEnabled (loop e ?s)"
    by (auto simp: loop_debugEnabled)
  have one: "run (pre @ [e]) (setup_R140 b) = loop e ?s" by (simp add: run_append)
  have all: "run (pre @ e # post) (setup_R140 b) = run post (loop e ?s)" by (simp add: run_append)
  from run_disabled [OF off, of post] off loop_fired [OF fired]
  show ?thesis by (simp add: one all)
qed

text \<open>
  A quiet pass at 1000 ms, a quiet pass at 61000 ms whose test reaches the deadline, then
  a band change at 70000 ms and a denied press at 71000 ms: the last two add nothing.
\<close>

theorem debug_time_limited_witness:
  "60000 + boot_ms boot_ex \<noteq> 0 \<and>
   60000 + boot_ms boot_ex \<le> deadline_ms (tick_at 61000 (wiring HIGH HIGH HIGH HIGH HIGH LOW) True) \<and>
   band_change_detected (tick_at 70000 (wiring HIGH HIGH LOW HIGH LOW HIGH) True)
     (run [tick_at 1000 (wiring HIGH HIGH HIGH HIGH HIGH LOW) True,
           tick_at 61000 (wiring HIGH HIGH HIGH HIGH HIGH LOW) True] (setup_R140 boot_ex)) \<and>
   \<not> debugEnabled
     (run ([tick_at 1000 (wiring HIGH HIGH HIGH HIGH HIGH LOW) True] @
           [tick_at 61000 (wiring HIGH HIGH HIGH HIGH HIGH LOW) True]) (setup_R140 boot_ex)) \<and>
   serial
     (run ([tick_at 1000 (wiring HIGH HIGH HIGH HIGH HIGH LOW) True] @
           tick_at 61000 (wiring HIGH HIGH HIGH HIGH HIGH LOW) True #
           [tick_at 70000 (wiring HIGH HIGH LOW HIGH LOW HIGH) True,
            tick_at 71000 (wiring LOW HIGH LOW HIGH LOW HIGH) True]) (setup_R140 boot_ex)) =
   serial
     (handleAmplifierLogic (tick_at 61000 (wiring HIGH HIGH HIGH HIGH HIGH LOW) True)
       (run [tick_at 1000 (wiring HIGH HIGH HIGH HIGH HIGH LOW) True] (setup_R140 boot_ex)))"
proof -
  have a: "60000 + boot_ms boot_ex \<noteq> 0" by simp
  have b: "60000 + boot_ms boot_ex \<le>
      deadline_ms (tick_at 61000 (wiring HIGH HIGH HIGH HIGH HIGH LOW) True)"
    by simp
  have c: "band_change_detected (tick_at 70000 (wiring HIGH HIGH LOW HIGH LOW HIGH) True)
      (run [tick_at 1000 (wiring HIGH HIGH HIGH HIGH HIGH LOW) True,
            tick_at 61000 (wiring HIGH HIGH HIGH HIGH HIGH LOW) True] (setup_R140 boot_ex))"
    by (simp add: eval)
  from debug_time_limited [OF a b,
      of "[tick_at 1000 (wiring HIGH HIGH HIGH HIGH HIGH LOW) True]"
         "[tick_at 70000 (wiring HIGH HIGH LOW HIGH LOW HIGH) True,
           tick_at 71000 (wiring LOW HIGH LOW HIGH LOW HIGH) True]"]
    a b c
  show ?thesis by simp
qed

text \<open>
  The claim has no debug line once 60 seconds have passed since boot. Boot at 0 ms puts
  the deadline at 60000 ms. The pass at 59000 ms leaves debug output enabled. In the next
  pass every reading of the clock gives 61000 ms: \<^verbatim>\<open>handleAmplifierLogic\<close> detects a band
  change and writes its three lines, and only then the test clears \<open>debugEnabled\<close>.
\<close>

theorem debug_after_deadline_counterexample:
  "debugDeadline (setup_R140 boot_ex) = 60000 \<and>
   debugEnabled
     (run [tick_at 59000 (wiring HIGH HIGH HIGH HIGH HIGH LOW) True] (setup_R140 boot_ex)) \<and>
   now_ms (tick_at 61000 (wiring HIGH HIGH LOW HIGH LOW HIGH) True) = 61000 \<and>
   tick_debug (tick_at 61000 (wiring HIGH HIGH LOW HIGH LOW HIGH) True)
     (run [tick_at 59000 (wiring HIGH HIGH HIGH HIGH HIGH LOW) True] (setup_R140 boot_ex)) =
     [BandChangeDetected 7 10, BandBlocking 15, BandCodePattern 10 4] \<and>
   \<not> debugEnabled
     (run [tick_at 59000 (wiring HIGH HIGH HIGH HIGH HIGH LOW) True,
           tick_at 61000 (wiring HIGH HIGH LOW HIGH LOW HIGH) True] (setup_R140 boot_ex))"
  by (simp add: eval loop_debugDeadline)

end
